theory Spec2Isabelle
  imports Complex_Main "HOL-Library.Product_Lexorder"
begin

section \<open>Data model\<close>

text \<open>
  The class \<^verbatim>\<open>EasyRAG\<close> of the notebook keeps an embedding model, a FAISS index and
  the list of document texts. It is embedded with explicit state passing: every method
  takes the object and returns its result together with the object as the call leaves it.
  An exception is a value \<open>Inl e\<close>; the object returned beside it is the state at
  the point where the exception left the method.

  Numbers. Embedding components, distances and similarities are \<^verbatim>\<open>float32\<close> values in
  the source. The embedding keeps their type a parameter \<open>'a\<close> that only has to
  offer the operations the code applies (\<open>0\<close>, \<open>1\<close>, \<open>+\<close>, \<open>-\<close>, \<open>*\<close>, \<open>/\<close>) and a
  linear order; no algebraic law is assumed, so a theorem stated for this \<open>'a\<close> holds
  for exact and for rounded arithmetic alike. A theorem that needs exact arithmetic says so
  in its type (\<open>linordered_field\<close>), and the type \<open>float32\<close> below is the rounded
  arithmetic of the source. A not-a-number value, which is outside every linear order, is
  not covered.

  Texts. A Python string is a \<open>string\<close>; one list element stands for one character of
  the Python string, and the slice \<^verbatim>\<open>s[:200]\<close> is \<open>take 200 s\<close>.

  \<^verbatim>\<open>top_k\<close> is a natural number: a negative \<^verbatim>\<open>top_k\<close> is outside the contract of
  the index and is not modelled. Identifiers returned by the index are positions in the
  store, so they are natural numbers too.
\<close>

text \<open>The exceptions: DimensionMismatch is the spec's name for the failed check of a
  vector's length; ValueError and AssertionError are the Python exceptions of those
  names.\<close>

datatype error = DimensionMismatch | ValueError | AssertionError

text \<open>The dictionaries \<^verbatim>\<open>{"text": ..., "similarity": ..., "rank": ...}\<close> built by
  \<^verbatim>\<open>search\<close>. The key \<^verbatim>\<open>text\<close> is the field \<open>text_of\<close>.\<close>

record 'a SearchResult =
  text_of :: string
  similarity :: 'a
  rank :: nat

subsection \<open>The embedder\<close>

text \<open>Modelled from the spec: the Embedder's \<^verbatim>\<open>encode\<close> (in the source
  \<^verbatim>\<open>SentenceTransformer.encode\<close>, a model that is not under src/). The spec gives its
  contract: a list of texts goes to a list of vectors, one vector per input text,
  preserving order, deterministic. The model itself, a function from one text to its
  vector, is a parameter; the length of the vectors it produces is not assumed. The
  result is a two-dimensional array with one row per text; for an empty list of texts it
  is the empty array, which has a single dimension, and which the empty list stands for
  here: no other list of texts produces it.\<close>

definition encode :: "(string \<Rightarrow> 'a list) \<Rightarrow> string list \<Rightarrow> 'a list list" where
  "encode model texts = map model texts"

subsection \<open>The vector index\<close>

text \<open>Modelled from the spec: the VectorIndex (in the source \<^verbatim>\<open>faiss.IndexFlatL2\<close>,
  a library that is not under src/). It holds its fixed dimensionality and the stored
  vectors in insertion order; the identifier of a vector is its position, from 0.\<close>

record 'a VectorIndex =
  dimensionality :: nat
  vectors :: "'a list list"

text \<open>Modelled from the spec: the index is created empty for a given dimensionality
  (\<^verbatim>\<open>faiss.IndexFlatL2(self.embedding_dim)\<close>).\<close>

definition IndexFlatL2 :: "nat \<Rightarrow> 'a VectorIndex" where
  "IndexFlatL2 n = \<lparr>dimensionality = n, vectors = []\<rparr>"

text \<open>Modelled from the spec: the number of stored vectors (\<^verbatim>\<open>index.ntotal\<close>).\<close>

definition ntotal :: "'a VectorIndex \<Rightarrow> nat" where
  "ntotal ix = length (vectors ix)"

text \<open>Modelled from the spec: \<^verbatim>\<open>insert\<close> of the VectorIndex (\<^verbatim>\<open>index.add\<close> in the
  source). It fails with DimensionMismatch if any vector's length disagrees with the
  configured dimensionality, rejecting before it appends anything; otherwise it appends
  the batch in order. Before that check, the call the source makes unpacks the shape of
  its argument into a number of rows and a number of columns
  (\<^verbatim>\<open>n, d = x.shape\<close>); the array that \<^verbatim>\<open>encode\<close> returns for no texts has one
  dimension only, so on it the call raises ValueError, and the index is unchanged.\<close>

definition index_add ::
  "'a VectorIndex \<Rightarrow> 'a list list \<Rightarrow> (error + unit) \<times> 'a VectorIndex" where
  "index_add ix x =
     (if x = [] then (Inl ValueError, ix)
      else if list_all (\<lambda>v. length v = dimensionality ix) x
      then (Inr (), ix\<lparr>vectors := vectors ix @ x\<rparr>)
      else (Inl DimensionMismatch, ix))"

text \<open>Modelled from the spec: the squared L2 distance of two vectors, the sum over the
  components of the squared differences.\<close>

definition fvec_L2sqr :: "'a::{zero,plus,minus,times} list \<Rightarrow> 'a list \<Rightarrow> 'a" where
  "fvec_L2sqr x y = foldl (\<lambda>acc (a, b). acc + (a - b) * (a - b)) 0 (zip x y)"

text \<open>Modelled from the spec: the exact scan, which computes the squared L2 distance
  from the query to every stored vector and pairs it with the vector's identifier.\<close>

definition all_distances ::
  "'a::{zero,plus,minus,times} list \<Rightarrow> 'a list list \<Rightarrow> ('a \<times> nat) list" where
  "all_distances q xb = map (\<lambda>(i, v). (fvec_L2sqr q v, i)) (enumerate 0 xb)"

text \<open>Modelled from the spec: the partial sort of the scan, which obtains the \<open>k\<close>
  smallest, or all when fewer are stored, ordered by ascending distance, ties broken by
  ascending identifier: the sort is on the pairs (distance, identifier) in their
  lexicographic order.\<close>

definition k_smallest ::
  "'a::{linorder,zero,plus,minus,times} list \<Rightarrow> 'a list list \<Rightarrow> nat \<Rightarrow> ('a \<times> nat) list" where
  "k_smallest q xb k = take k (sort (all_distances q xb))"

text \<open>Modelled from the spec: \<^verbatim>\<open>search\<close> of the VectorIndex (\<^verbatim>\<open>index.search\<close> in the
  source, called with a one-row query matrix whose row 0 of distances and of identifiers
  is read). It fails with DimensionMismatch if the query vector's length differs from the
  configured dimensionality. The spec gives the search for a positive \<open>k\<close> only: the
  call the source makes asserts \<^verbatim>\<open>k > 0\<close> after the check of the dimension, so
  \<open>k = 0\<close> raises AssertionError. Otherwise it returns the \<open>k\<close> nearest stored
  vectors as the row of distances and the row of identifiers. The index is not changed.\<close>

definition index_search ::
  "'a::{linorder,zero,plus,minus,times} VectorIndex \<Rightarrow> 'a list \<Rightarrow> nat
     \<Rightarrow> error + ('a list \<times> nat list)" where
  "index_search ix q k =
     (if length q \<noteq> dimensionality ix then Inl DimensionMismatch
      else if k = 0 then Inl AssertionError
      else let hits = k_smallest q (vectors ix) k
           in Inr (map fst hits, map snd hits))"

subsection \<open>The class EasyRAG\<close>

record 'a EasyRAG =
  embedder :: "string \<Rightarrow> 'a list"
  embedding_dim :: nat
  index :: "'a VectorIndex"
  documents :: "string list"

text \<open>\<^verbatim>\<open>__init__\<close>: the loaded embedding model is the argument; the dimension is the
  constant 384 of the source, the index is created for it, the document list is empty.\<close>

definition EasyRAG_init :: "(string \<Rightarrow> 'a list) \<Rightarrow> 'a EasyRAG" where
  "EasyRAG_init model =
     \<lparr>embedder = model, embedding_dim = 384, index = IndexFlatL2 384, documents = []\<rparr>"

text \<open>\<^verbatim>\<open>add_documents\<close>: encode the whole batch, add the embeddings to the index, then
  extend the document list. An exception of \<^verbatim>\<open>index.add\<close> leaves the method before
  the document list is touched. The method has no guard of its own for an empty list of
  texts.\<close>

definition add_documents ::
  "'a EasyRAG \<Rightarrow> string list \<Rightarrow> (error + unit) \<times> 'a EasyRAG" where
  "add_documents self texts =
     (let embeddings = encode (embedder self) texts in
      case index_add (index self) embeddings of
        (Inl e, ix) \<Rightarrow> (Inl e, self\<lparr>index := ix\<rparr>)
      | (Inr u, ix) \<Rightarrow>
          (Inr (), self\<lparr>index := ix, documents := documents self @ texts\<rparr>))"

text \<open>The loop of \<^verbatim>\<open>search\<close> over \<^verbatim>\<open>enumerate(zip(distances[0], indices[0]))\<close>:
  \<open>i\<close> is the position in the enumeration; a hit whose identifier is not below the
  number of documents is skipped, and still counts for the position.\<close>

fun prepare_results ::
  "string list \<Rightarrow> nat \<Rightarrow> ('a::{one,plus,inverse} \<times> nat) list \<Rightarrow> 'a SearchResult list" where
  "prepare_results docs i [] = []"
| "prepare_results docs i ((distance, idx) # rest) =
     (if idx < length docs
      then \<lparr>text_of = docs ! idx, similarity = 1 / (1 + distance), rank = i + 1\<rparr>
             # prepare_results docs (i + 1) rest
      else prepare_results docs (i + 1) rest)"

text \<open>\<^verbatim>\<open>search\<close>: with no documents it returns the empty list at once. Otherwise the
  query is encoded as a batch of one, the index is asked for
  \<^verbatim>\<open>min(top_k, len(self.documents))\<close> neighbours, and the results are prepared. The
  number passed to the index is not checked: with \<^verbatim>\<open>top_k = 0\<close> it is 0.\<close>

definition search ::
  "'a::{linorder,zero,one,plus,minus,times,inverse} EasyRAG \<Rightarrow> string \<Rightarrow> nat
     \<Rightarrow> (error + 'a SearchResult list) \<times> 'a EasyRAG" where
  "search self query top_k =
     (if documents self = [] then (Inr [], self)
      else
        let query_embedding = encode (embedder self) [query] in
        case index_search (index self) (query_embedding ! 0)
               (min top_k (length (documents self))) of
          Inl e \<Rightarrow> (Inl e, self)
        | Inr (distances, indices) \<Rightarrow>
            (Inr (prepare_results (documents self) 0 (zip distances indices)), self))"

text \<open>\<^verbatim>\<open>answer_question\<close>: search with \<^verbatim>\<open>top_k=3\<close>; the fallback when nothing is
  found; otherwise the answer from the first result and, when there is a second, the
  first 200 characters of it. The variable \<^verbatim>\<open>context\<close> of the source is computed and
  never read, so it has no counterpart here.\<close>

definition answer_question ::
  "'a::{linorder,zero,one,plus,minus,times,inverse} EasyRAG \<Rightarrow> string
     \<Rightarrow> (error + string \<times> 'a SearchResult list) \<times> 'a EasyRAG" where
  "answer_question self question =
     (case search self question 3 of
        (Inl e, self') \<Rightarrow> (Inl e, self')
      | (Inr relevant_docs, self') \<Rightarrow>
          if relevant_docs = []
          then (Inr (''I don't have information to answer this question.'', []), self')
          else
            let answer = ''Based on the available information:\<newline>\<newline>''
                           @ text_of (relevant_docs ! 0);
                answer' =
                  (if length relevant_docs > 1
                   then answer @ ''\<newline>\<newline>Additional relevant information:\<newline>''
                          @ take 200 (text_of (relevant_docs ! 1)) @ ''...''
                   else answer)
            in (Inr (answer', relevant_docs), self'))"

subsection \<open>Sequences of calls\<close>

text \<open>A sequence of \<^verbatim>\<open>add_documents\<close> calls, one per batch, all of which succeed:
  \<open>None\<close> as soon as one call raises, as a call with an empty batch does.\<close>

fun add_documents_seq :: "'a EasyRAG \<Rightarrow> string list list \<Rightarrow> 'a EasyRAG option" where
  "add_documents_seq self [] = Some self"
| "add_documents_seq self (texts # rest) =
     (case add_documents self texts of
        (Inl e, self') \<Rightarrow> None
      | (Inr u, self') \<Rightarrow> add_documents_seq self' rest)"

subsection \<open>The arithmetic of the source\<close>

text \<open>The numbers of the source are binary32 floating-point numbers (numpy's
  \<^verbatim>\<open>float32\<close>): the index returns \<^verbatim>\<open>float32\<close> distances, and
  \<^verbatim>\<open>1 / (1 + distance)\<close> on a \<^verbatim>\<open>float32\<close> scalar is computed in \<^verbatim>\<open>float32\<close>.
  Every operation returns the exact result rounded to the nearest number with a
  significand of 24 bits, ties going to the even significand. The type \<open>float32\<close>
  carries the value of such a number as a rational. It is faithful where operands and
  results are normal numbers; overflow to infinity, subnormal numbers, division by zero
  and not-a-number are not modelled.

  \<open>ulp_of n a u\<close> looks for the spacing of the binary32 numbers around \<open>a > 0\<close>, the
  power of two \<open>u\<close> with \<open>2^23 * u \<le> a < 2^24 * u\<close>, starting from \<open>u\<close> and halving
  or doubling at most \<open>n\<close> times; 300 steps from 1 reach every binary32 exponent.\<close>

fun ulp_of :: "nat \<Rightarrow> rat \<Rightarrow> rat \<Rightarrow> rat" where
  "ulp_of 0 a u = u"
| "ulp_of (Suc n) a u =
     (if a < 8388608 * u then ulp_of n a (u / 2)
      else if 16777216 * u \<le> a then ulp_of n a (2 * u)
      else u)"

text \<open>Rounding to the nearest integer, a tie going to the even one.\<close>

definition round_half_even :: "rat \<Rightarrow> int" where
  "round_half_even x =
     (let f = \<lfloor>x\<rfloor>; r = x - of_int f
      in if r < 1 / 2 then f else if 1 / 2 < r then f + 1 else if even f then f else f + 1)"

text \<open>Rounding a rational to binary32.\<close>

definition round32 :: "rat \<Rightarrow> rat" where
  "round32 x =
     (if x = 0 then 0
      else let u = ulp_of 300 \<bar>x\<bar> 1 in of_int (round_half_even (x / u)) * u)"

datatype float32 = Float32 (val: rat)

instantiation float32 :: "{linorder, zero, one, plus, minus, times, inverse}"
begin

definition zero_float32 :: float32 where
  "zero_float32 = Float32 0"

definition one_float32 :: float32 where
  "one_float32 = Float32 1"

definition plus_float32 :: "float32 \<Rightarrow> float32 \<Rightarrow> float32" where
  "plus_float32 a b = Float32 (round32 (val a + val b))"

definition minus_float32 :: "float32 \<Rightarrow> float32 \<Rightarrow> float32" where
  "minus_float32 a b = Float32 (round32 (val a - val b))"

definition times_float32 :: "float32 \<Rightarrow> float32 \<Rightarrow> float32" where
  "times_float32 a b = Float32 (round32 (val a * val b))"

definition divide_float32 :: "float32 \<Rightarrow> float32 \<Rightarrow> float32" where
  "divide_float32 a b = Float32 (round32 (val a / val b))"

definition inverse_float32 :: "float32 \<Rightarrow> float32" where
  "inverse_float32 a = Float32 (round32 (1 / val a))"

definition less_eq_float32 :: "float32 \<Rightarrow> float32 \<Rightarrow> bool" where
  "less_eq_float32 a b \<longleftrightarrow> val a \<le> val b"

definition less_float32 :: "float32 \<Rightarrow> float32 \<Rightarrow> bool" where
  "less_float32 a b \<longleftrightarrow> val a < val b"

instance
  by standard (auto simp: less_eq_float32_def less_float32_def float32.expand)

end

subsection \<open>Concrete knowledge bases\<close>

text \<open>Small inputs on which the theorems are evaluated. \<open>toy_model\<close> embeds a text
  by its length, in two dimensions; \<open>broken_model\<close> breaks the embedder's contract on
  texts longer than three characters, where its vector has one component; \<open>model384\<close>
  produces vectors of the dimension the class is created with; \<open>float32_model\<close>
  embeds a text in one dimension as its length times \<open>2^-13\<close>, in binary32.\<close>

definition toy_model :: "string \<Rightarrow> rat list" where
  "toy_model t = [of_nat (length t), 0]"

definition broken_model :: "string \<Rightarrow> rat list" where
  "broken_model t = (if length t \<le> 3 then [of_nat (length t), 0] else [1])"

definition toy_index :: "rat VectorIndex" where
  "toy_index = \<lparr>dimensionality = 2, vectors = [[1, 0], [3, 0], [2, 0]]\<rparr>"

definition toy_rag :: "rat EasyRAG" where
  "toy_rag = \<lparr>embedder = toy_model, embedding_dim = 2, index = toy_index,
               documents = [''a'', ''ccc'', ''bb'']\<rparr>"

definition broken_rag :: "rat EasyRAG" where
  "broken_rag = \<lparr>embedder = broken_model, embedding_dim = 2, index = toy_index,
               documents = [''a'', ''ccc'', ''bb'']\<rparr>"

definition long_rag :: "rat EasyRAG" where
  "long_rag = \<lparr>embedder = toy_model, embedding_dim = 2,
                index = \<lparr>dimensionality = 2, vectors = [[1, 0], [250, 0], [300, 0]]\<rparr>,
                documents = [''a'', replicate 250 (CHR ''x''), replicate 300 (CHR ''y'')]\<rparr>"

definition model384 :: "string \<Rightarrow> rat list" where
  "model384 t = replicate 384 (of_nat (length t))"



section \<open>Properties of the index\<close>

lemmas toy_defs = toy_model_def broken_model_def toy_index_def toy_rag_def broken_rag_def long_rag_def
  ntotal_def
lemmas eval_defs = search_def encode_def index_search_def k_smallest_def all_distances_def
  fvec_L2sqr_def answer_question_def Let_def

lemma prepare_results_all:
  "\<forall>h\<in>set hits. snd h < length docs \<Longrightarrow>
   prepare_results docs i hits =
     map (\<lambda>(j, h). \<lparr>text_of = docs ! snd h, similarity = 1 / (1 + fst h), rank = j + 1\<rparr>)
       (enumerate i hits)"
  by (induction hits arbitrary: i) (auto)

lemma length_all_distances: "length (all_distances q xb) = length xb"
  by (simp add: all_distances_def)

lemma nth_all_distances:
  "i < length xb \<Longrightarrow> all_distances q xb ! i = (fvec_L2sqr q (xb ! i), i)"
  by (simp add: all_distances_def nth_enumerate_eq)

lemma in_all_distances:
  "(dv, i) \<in> set (all_distances q xb) \<longleftrightarrow> i < length xb \<and> dv = fvec_L2sqr q (xb ! i)"
proof
  assume "(dv, i) \<in> set (all_distances q xb)"
  then obtain j where "j < length xb" "all_distances q xb ! j = (dv, i)"
    by (auto simp: in_set_conv_nth length_all_distances)
  then show "i < length xb \<and> dv = fvec_L2sqr q (xb ! i)"
    by (auto simp: nth_all_distances)
next
  assume a: "i < length xb \<and> dv = fvec_L2sqr q (xb ! i)"
  then have "all_distances q xb ! i = (dv, i)" by (simp add: nth_all_distances)
  then show "(dv, i) \<in> set (all_distances q xb)"
    using a by (metis length_all_distances nth_mem)
qed

lemma distinct_all_distances: "distinct (all_distances q xb)"
  by (auto simp: distinct_conv_nth length_all_distances nth_all_distances)

lemma length_k_smallest: "length (k_smallest q xb k) = min k (length xb)"
  by (simp add: k_smallest_def length_all_distances)

lemma set_k_smallest: "set (k_smallest q xb k) \<subseteq> set (all_distances q xb)"
  unfolding k_smallest_def using set_take_subset[of k "sort (all_distances q xb)"] by simp

lemma sorted_k_smallest: "sorted (k_smallest q xb k)"
  by (simp add: k_smallest_def)

lemma distinct_k_smallest: "distinct (k_smallest q xb k)"
  by (simp add: k_smallest_def distinct_all_distances)

lemma k_smallest_below_rest:
  assumes "h \<in> set (k_smallest q xb k)" "g \<in> set (all_distances q xb)" "g \<notin> set (k_smallest q xb k)"
  shows "h < g"
proof -
  let ?s = "sort (all_distances q xb)"
  have s: "?s = take k ?s @ drop k ?s" by simp
  have "g \<in> set ?s" using assms(2) by simp
  then have "g \<in> set (take k ?s) \<union> set (drop k ?s)" by (metis s set_append)
  then have g: "g \<in> set (drop k ?s)" using assms(3) by (simp add: k_smallest_def)
  have "sorted (take k ?s @ drop k ?s)" by simp
  then have "h \<le> g" using assms(1) g unfolding sorted_append k_smallest_def by blast
  moreover have "h \<noteq> g" using assms(1,3) by auto
  ultimately show ?thesis by simp
qed

lemma search_nonempty:
  assumes "ntotal (index self) = length (documents self)"
    and "documents self \<noteq> []"
    and "length (embedder self query) = dimensionality (index self)"
    and "0 < top_k"
  shows "search self query top_k =
    (Inr (map (\<lambda>(j, h). \<lparr>text_of = documents self ! snd h, similarity = 1 / (1 + fst h), rank = j + 1\<rparr>)
       (enumerate 0 (k_smallest (embedder self query) (vectors (index self))
           (min top_k (length (documents self)))))), self)"
proof -
  let ?hits = "k_smallest (embedder self query) (vectors (index self)) (min top_k (length (documents self)))"
  have "\<forall>h\<in>set ?hits. snd h < length (documents self)"
  proof
    fix h assume "h \<in> set ?hits"
    then have "(fst h, snd h) \<in> set (all_distances (embedder self query) (vectors (index self)))"
      using set_k_smallest by fastforce
    then show "snd h < length (documents self)"
      using assms(1) in_all_distances[of "fst h" "snd h"] by (simp add: ntotal_def)
  qed
  then show ?thesis using assms(2,3,4)
    by (simp add: search_def encode_def index_search_def Let_def zip_map_fst_snd prepare_results_all)
qed

lemma k_smallest_nth_less:
  assumes "i < j" "j < length (k_smallest q xb k)"
  shows "k_smallest q xb k ! i < k_smallest q xb k ! j"
proof -
  let ?hs = "k_smallest q xb k"
  have "?hs ! i \<le> ?hs ! j"
    using sorted_k_smallest[of q xb k] assms by (simp add: sorted_iff_nth_mono_less)
  moreover have "?hs ! i \<noteq> ?hs ! j"
    using distinct_k_smallest[of q xb k] assms by (simp add: nth_eq_iff_index_eq)
  ultimately show ?thesis by simp
qed

lemma prod_less_cases:
  fixes h g :: "'a::linorder \<times> nat"
  assumes "h < g"
  shows "fst h \<le> fst g \<and> (fst h = fst g \<longrightarrow> snd h < snd g)"
  using assms by (cases h, cases g) auto

section \<open>Properties of search\<close>

lemma search_frame: "snd (search self query top_k) = self"
  by (simp add: search_def Let_def split: sum.splits prod.splits)

lemma search_results_shape:
  assumes "ntotal (index self) = length (documents self)"
    and "documents self \<noteq> []"
    and "length (embedder self query) = dimensionality (index self)"
    and "0 < top_k"
  shows "\<exists>rs. search self query top_k = (Inr rs, self)
           \<and> length rs = min top_k (length (documents self))
           \<and> (\<forall>i<length rs. rank (rs ! i) = i + 1)"
  using assms search_nonempty[OF assms]
  by (simp add: length_k_smallest ntotal_def nth_enumerate_eq)

lemma search_zero_raises:
  assumes "documents self \<noteq> []"
    and "length (embedder self query) = dimensionality (index self)"
  shows "search self query 0 = (Inl AssertionError, self)"
  using assms by (simp add: search_def encode_def index_search_def)

text \<open>C2. In a knowledge base whose index holds as many vectors as there are documents,
  and for a query that the embedder maps to a vector of the index's dimensionality,
  \<^verbatim>\<open>search\<close> returns exactly \<open>min k document_count\<close> results for every \<open>k\<close>
  from 1 on. With no documents neither hypothesis on the query and on \<open>k\<close> is needed:
  the result is empty for every \<open>k\<close> from 0 on.\<close>

theorem search_cardinality:
  assumes "ntotal (index self) = length (documents self)"
    and "documents self \<noteq> [] \<longrightarrow>
           length (embedder self query) = dimensionality (index self) \<and> 0 < k"
  shows "\<exists>rs. fst (search self query k) = Inr rs
           \<and> length rs = min k (length (documents self))
           \<and> (documents self = [] \<longrightarrow> rs = [])"
proof (cases "documents self = []")
  case True
  then show ?thesis by (simp add: search_def)
next
  case False
  then show ?thesis
    using assms search_nonempty[of self query k]
    by (simp add: length_k_smallest ntotal_def)
qed

theorem search_cardinality_witness:
  "ntotal (index toy_rag) = length (documents toy_rag)
 \<and> documents toy_rag \<noteq> []
 \<and> length (embedder toy_rag ''bb'') = dimensionality (index toy_rag)
 \<and> (\<exists>rs. fst (search toy_rag ''bb'' 1) = Inr rs \<and> length rs = 1)
 \<and> (\<exists>rs. fst (search toy_rag ''bb'' 2) = Inr rs \<and> length rs = 2)
 \<and> (\<exists>rs. fst (search toy_rag ''bb'' 7) = Inr rs \<and> length rs = 3)
 \<and> documents (EasyRAG_init toy_model) = []
 \<and> (\<exists>rs. fst (search (EasyRAG_init toy_model) ''bb'' 7) = Inr rs \<and> length rs = 0)
 \<and> (\<exists>rs. fst (search (EasyRAG_init toy_model) ''bb'' 0) = Inr rs \<and> length rs = 0)"
proof -
  have h1: "ntotal (index toy_rag) = length (documents toy_rag)" by (simp add: toy_defs)
  have h2: "documents toy_rag \<noteq> [] \<longrightarrow>
              length (embedder toy_rag ''bb'') = dimensionality (index toy_rag) \<and> 0 < k"
    if "0 < k" for k :: nat
    using that by (simp add: toy_defs)
  have e1: "ntotal (index (EasyRAG_init toy_model)) = length (documents (EasyRAG_init toy_model))"
    by (simp add: EasyRAG_init_def IndexFlatL2_def ntotal_def)
  have e2: "documents (EasyRAG_init toy_model) \<noteq> [] \<longrightarrow>
              length (embedder (EasyRAG_init toy_model) ''bb'')
                = dimensionality (index (EasyRAG_init toy_model)) \<and> 0 < k" for k :: nat
    by (simp add: EasyRAG_init_def)
  have d: "documents (EasyRAG_init toy_model) = []" by (simp add: EasyRAG_init_def)
  have t: "documents toy_rag \<noteq> []" "length (documents toy_rag) = 3"
      "length (embedder toy_rag ''bb'') = dimensionality (index toy_rag)"
    by (simp_all add: toy_defs)
  show ?thesis
    using search_cardinality[OF h1 h2, of 1] search_cardinality[OF h1 h2, of 2]
      search_cardinality[OF h1 h2, of 7] search_cardinality[OF e1 e2, of 7]
      search_cardinality[OF e1 e2, of 0] h1 t d
    by simp
qed

text \<open>With \<open>k = 0\<close> and at least one document the number 0 reaches the index, which
  rejects it: \<^verbatim>\<open>search\<close> raises and returns no list of results.\<close>

theorem search_cardinality_counterexample:
  "ntotal (index toy_rag) = length (documents toy_rag)
 \<and> length (documents toy_rag) = 3
 \<and> length (embedder toy_rag ''bb'') = dimensionality (index toy_rag)
 \<and> search toy_rag ''bb'' 0 = (Inl AssertionError, toy_rag)"
  by (simp add: toy_defs search_def encode_def index_search_def)

text \<open>C3. For \<^verbatim>\<open>top_k\<close> from 1 on (the index rejects 0), the results of
  \<^verbatim>\<open>search\<close> follow the hits of the index one for one: result
  \<open>i\<close> carries the text of the document whose identifier is that of hit \<open>i\<close>, the
  similarity computed from the distance of hit \<open>i\<close>, and rank \<open>i + 1\<close>; the distance
  of a hit is the squared L2 distance from the query to the stored vector of that
  identifier. An earlier hit has a distance less than or equal to that of a later hit,
  and of two hits at equal distance the one with the smaller identifier comes first. A
  stored vector that is not among the hits is no nearer than any hit, and at equal
  distance it has the larger identifier.\<close>

theorem search_distance_ordering:
  assumes "ntotal (index self) = length (documents self)"
    and "documents self \<noteq> []"
    and "length (embedder self query) = dimensionality (index self)"
    and "0 < top_k"
  shows "\<exists>hits rs.
           index_search (index self) (embedder self query)
               (min top_k (length (documents self))) = Inr (map fst hits, map snd hits)
         \<and> fst (search self query top_k) = Inr rs
         \<and> length rs = length hits
         \<and> (\<forall>i<length rs.
               snd (hits ! i) < length (documents self)
             \<and> fst (hits ! i) =
                 fvec_L2sqr (embedder self query) (vectors (index self) ! snd (hits ! i))
             \<and> text_of (rs ! i) = documents self ! snd (hits ! i)
             \<and> similarity (rs ! i) = 1 / (1 + fst (hits ! i))
             \<and> rank (rs ! i) = i + 1)
         \<and> (\<forall>i j. i < j \<and> j < length rs \<longrightarrow>
               fst (hits ! i) \<le> fst (hits ! j)
             \<and> (fst (hits ! i) = fst (hits ! j) \<longrightarrow> snd (hits ! i) < snd (hits ! j)))
         \<and> (\<forall>m<length (documents self). m \<notin> snd ` set hits \<longrightarrow>
               (\<forall>i<length rs.
                  fst (hits ! i) \<le> fvec_L2sqr (embedder self query) (vectors (index self) ! m)
                \<and> (fst (hits ! i) = fvec_L2sqr (embedder self query) (vectors (index self) ! m)
                      \<longrightarrow> snd (hits ! i) < m)))"
proof -
  let ?q = "embedder self query"
  let ?xb = "vectors (index self)"
  let ?docs = "documents self"
  let ?hits = "k_smallest ?q ?xb (min top_k (length ?docs))"
  let ?mk = "\<lambda>(j, h). \<lparr>text_of = ?docs ! snd h, similarity = 1 / (1 + fst h), rank = j + 1\<rparr>"
  let ?rs = "map ?mk (enumerate 0 ?hits)"
  have n: "length ?xb = length ?docs" using assms(1) by (simp add: ntotal_def)
  have mem: "?hits ! i \<in> set (all_distances ?q ?xb)" if "i < length ?hits" for i
    using that set_k_smallest[of ?q ?xb] nth_mem by blast
  have c1: "index_search (index self) ?q (min top_k (length ?docs))
              = Inr (map fst ?hits, map snd ?hits)"
    using assms(2,3,4) by (simp add: index_search_def Let_def)
  have c2: "fst (search self query top_k) = Inr ?rs"
    using search_nonempty[OF assms] by simp
  have c3: "length ?rs = length ?hits" by simp
  have c4: "\<forall>i<length ?rs.
               snd (?hits ! i) < length ?docs
             \<and> fst (?hits ! i) = fvec_L2sqr ?q (?xb ! snd (?hits ! i))
             \<and> text_of (?rs ! i) = ?docs ! snd (?hits ! i)
             \<and> similarity (?rs ! i) = 1 / (1 + fst (?hits ! i))
             \<and> rank (?rs ! i) = i + 1"
  proof (intro allI impI)
    fix i assume "i < length ?rs"
    then have i: "i < length ?hits" by simp
    have "(fst (?hits ! i), snd (?hits ! i)) \<in> set (all_distances ?q ?xb)"
      using mem[OF i] by simp
    then have a: "snd (?hits ! i) < length ?docs
        \<and> fst (?hits ! i) = fvec_L2sqr ?q (?xb ! snd (?hits ! i))"
      unfolding in_all_distances using n by simp
    have b: "?rs ! i = ?mk (i, ?hits ! i)"
      using i by (simp add: nth_enumerate_eq)
    show "snd (?hits ! i) < length ?docs
             \<and> fst (?hits ! i) = fvec_L2sqr ?q (?xb ! snd (?hits ! i))
             \<and> text_of (?rs ! i) = ?docs ! snd (?hits ! i)
             \<and> similarity (?rs ! i) = 1 / (1 + fst (?hits ! i))
             \<and> rank (?rs ! i) = i + 1"
      using a unfolding b by simp
  qed
  have c5: "\<forall>i j. i < j \<and> j < length ?rs \<longrightarrow>
               fst (?hits ! i) \<le> fst (?hits ! j)
             \<and> (fst (?hits ! i) = fst (?hits ! j) \<longrightarrow> snd (?hits ! i) < snd (?hits ! j))"
  proof (intro allI impI)
    fix i j assume "i < j \<and> j < length ?rs"
    then have "?hits ! i < ?hits ! j"
      using k_smallest_nth_less[of i j ?q ?xb] by simp
    then show "fst (?hits ! i) \<le> fst (?hits ! j)
             \<and> (fst (?hits ! i) = fst (?hits ! j) \<longrightarrow> snd (?hits ! i) < snd (?hits ! j))"
      by (rule prod_less_cases)
  qed
  have c6: "\<forall>m<length ?docs. m \<notin> snd ` set ?hits \<longrightarrow>
               (\<forall>i<length ?rs.
                  fst (?hits ! i) \<le> fvec_L2sqr ?q (?xb ! m)
                \<and> (fst (?hits ! i) = fvec_L2sqr ?q (?xb ! m) \<longrightarrow> snd (?hits ! i) < m))"
  proof (intro allI impI)
    fix m i assume m: "m < length ?docs" and out: "m \<notin> snd ` set ?hits"
      and "i < length ?rs"
    then have i: "i < length ?hits" by simp
    let ?g = "(fvec_L2sqr ?q (?xb ! m), m)"
    have g1: "?g \<in> set (all_distances ?q ?xb)"
      using m n by (simp add: in_all_distances)
    have g2: "?g \<notin> set ?hits" using out by force
    have "?hits ! i < ?g"
      using k_smallest_below_rest[OF nth_mem[OF i] g1 g2] .
    then show "fst (?hits ! i) \<le> fvec_L2sqr ?q (?xb ! m)
                \<and> (fst (?hits ! i) = fvec_L2sqr ?q (?xb ! m) \<longrightarrow> snd (?hits ! i) < m)"
      using prod_less_cases[of "?hits ! i" ?g] by simp
  qed
  from c1 c2 c3 c4 c5 c6 show ?thesis by blast
qed

theorem search_distance_ordering_witness:
  "ntotal (index toy_rag) = length (documents toy_rag)
 \<and> documents toy_rag \<noteq> []
 \<and> length (embedder toy_rag ''bb'') = dimensionality (index toy_rag)
 \<and> (0::nat) < 2
 \<and> index_search (index toy_rag) (embedder toy_rag ''bb'') 2 = Inr ([0, 1], [2, 0])
 \<and> fst (search toy_rag ''bb'' 2) =
      Inr [\<lparr>text_of = ''bb'', similarity = 1, rank = 1\<rparr>,
           \<lparr>text_of = ''a'', similarity = 1 / 2, rank = 2\<rparr>]"
proof -
  have h1: "ntotal (index toy_rag) = length (documents toy_rag)" by (simp add: toy_defs)
  have h2: "documents toy_rag \<noteq> []" by (simp add: toy_defs)
  have h3: "length (embedder toy_rag ''bb'') = dimensionality (index toy_rag)"
    by (simp add: toy_defs)
  have h4: "(0::nat) < 2" by simp
  show ?thesis
    using search_distance_ordering[OF h1 h2 h3 h4]
    by (simp add: toy_defs eval_defs)
qed













section \<open>Properties of answer_question\<close>

lemma answer_question_of_search:
  assumes "search self question 3 = (Inr rs, self')" and "rs \<noteq> []"
  shows "answer_question self question =
    (Inr (''Based on the available information:\<newline>\<newline>'' @ text_of (rs ! 0)
            @ (if 1 < length rs
               then ''\<newline>\<newline>Additional relevant information:\<newline>''
                      @ take 200 (text_of (rs ! 1)) @ ''...''
               else []),
          rs), self')"
  using assms by (simp add: answer_question_def Let_def)

text \<open>C1. In a knowledge base with at least one document, \<^verbatim>\<open>answer_question\<close>
  returns the results of \<^verbatim>\<open>search\<close> with \<^verbatim>\<open>top_k=3\<close>, all of them, and an answer
  that is the first lead-in phrase followed by the whole text of the result of rank 1,
  followed, if and only if there is a result of rank 2, by the second lead-in phrase, the
  first 200 characters of the text of rank 2 and three dots. The answer is built from the
  first two results alone: no result of rank 3 or beyond enters it.\<close>

theorem answer_composition:
  assumes "ntotal (index self) = length (documents self)"
    and "documents self \<noteq> []"
    and "length (embedder self question) = dimensionality (index self)"
  shows "\<exists>rs. fst (search self question 3) = Inr rs
           \<and> length rs = min 3 (length (documents self))
           \<and> (\<forall>i<length rs. rank (rs ! i) = i + 1)
           \<and> fst (answer_question self question) =
               Inr (''Based on the available information:\<newline>\<newline>'' @ text_of (rs ! 0)
                      @ (if 1 < length rs
                         then ''\<newline>\<newline>Additional relevant information:\<newline>''
                                @ take 200 (text_of (rs ! 1)) @ ''...''
                         else []),
                    rs)"
proof -
  obtain rs where rs: "search self question 3 = (Inr rs, self)"
      "length rs = min 3 (length (documents self))"
      "\<forall>i<length rs. rank (rs ! i) = i + 1"
    using search_results_shape[OF assms, of 3] by auto
  have "rs \<noteq> []" using rs(2) assms(2) by (cases "documents self") auto
  from answer_question_of_search[OF rs(1) this] rs show ?thesis by simp
qed

theorem answer_composition_witness:
  "ntotal (index long_rag) = length (documents long_rag)
 \<and> documents long_rag \<noteq> []
 \<and> length (embedder long_rag (replicate 299 (CHR ''q''))) = dimensionality (index long_rag)
 \<and> fst (answer_question long_rag (replicate 299 (CHR ''q''))) =
      Inr (''Based on the available information:\<newline>\<newline>'' @ replicate 300 (CHR ''y'')
             @ ''\<newline>\<newline>Additional relevant information:\<newline>''
             @ replicate 200 (CHR ''x'') @ ''...'',
           [\<lparr>text_of = replicate 300 (CHR ''y''), similarity = 1 / 2, rank = 1\<rparr>,
            \<lparr>text_of = replicate 250 (CHR ''x''), similarity = 1 / 2402, rank = 2\<rparr>,
            \<lparr>text_of = ''a'', similarity = 1 / 88805, rank = 3\<rparr>])"
proof -
  have h1: "ntotal (index long_rag) = length (documents long_rag)" by (simp add: toy_defs)
  have h2: "documents long_rag \<noteq> []" by (simp add: toy_defs)
  have h3: "length (embedder long_rag (replicate 299 (CHR ''q''))) = dimensionality (index long_rag)"
    by (simp add: toy_defs)
  have s: "search long_rag (replicate 299 (CHR ''q'')) 3 =
      (Inr [\<lparr>text_of = replicate 300 (CHR ''y''), similarity = 1 / 2, rank = 1\<rparr>,
            \<lparr>text_of = replicate 250 (CHR ''x''), similarity = 1 / 2402, rank = 2\<rparr>,
            \<lparr>text_of = ''a'', similarity = 1 / 88805, rank = 3\<rparr>], long_rag)"
    by (simp add: toy_defs eval_defs)
  show ?thesis
    using answer_composition[OF h1 h2 h3] h1 h2 h3 by (simp add: s)
qed

text \<open>C10. When there is a result of rank 2 and its text has at most 200 characters, the
  second section of the answer holds that text whole and unchanged, followed by the three
  dots.\<close>

theorem short_second_text_kept_whole:
  assumes "ntotal (index self) = length (documents self)"
    and "documents self \<noteq> []"
    and "length (embedder self question) = dimensionality (index self)"
  shows "\<exists>rs. fst (search self question 3) = Inr rs
           \<and> (1 < length rs \<and> length (text_of (rs ! 1)) \<le> 200 \<longrightarrow>
                fst (answer_question self question) =
                  Inr (''Based on the available information:\<newline>\<newline>'' @ text_of (rs ! 0)
                         @ ''\<newline>\<newline>Additional relevant information:\<newline>''
                         @ text_of (rs ! 1) @ ''...'', rs))"
proof -
  obtain rs where rs: "search self question 3 = (Inr rs, self)"
      "length rs = min 3 (length (documents self))"
    using search_results_shape[OF assms, of 3] by auto
  have "rs \<noteq> []" using rs(2) assms(2) by (cases "documents self") auto
  from answer_question_of_search[OF rs(1) this] rs(1) show ?thesis by simp
qed

theorem short_second_text_kept_whole_witness:
  "ntotal (index toy_rag) = length (documents toy_rag)
 \<and> documents toy_rag \<noteq> []
 \<and> length (embedder toy_rag ''bb'') = dimensionality (index toy_rag)
 \<and> (\<exists>rs. fst (search toy_rag ''bb'' 3) = Inr rs
       \<and> 1 < length rs \<and> text_of (rs ! 1) = ''a'' \<and> length (text_of (rs ! 1)) \<le> 200
       \<and> fst (answer_question toy_rag ''bb'') =
           Inr (''Based on the available information:\<newline>\<newline>bb''
                  @ ''\<newline>\<newline>Additional relevant information:\<newline>a...'', rs))"
proof -
  have h1: "ntotal (index toy_rag) = length (documents toy_rag)" by (simp add: toy_defs)
  have h2: "documents toy_rag \<noteq> []" by (simp add: toy_defs)
  have h3: "length (embedder toy_rag ''bb'') = dimensionality (index toy_rag)"
    by (simp add: toy_defs)
  have s: "search toy_rag ''bb'' 3 =
      (Inr [\<lparr>text_of = ''bb'', similarity = 1, rank = 1\<rparr>,
            \<lparr>text_of = ''a'', similarity = 1 / 2, rank = 2\<rparr>,
            \<lparr>text_of = ''ccc'', similarity = 1 / 2, rank = 3\<rparr>], toy_rag)"
    by (simp add: toy_defs eval_defs)
  show ?thesis
    using short_second_text_kept_whole[OF h1 h2 h3] h1 h2 h3 by (simp add: s)
qed

text \<open>C5. With no documents, \<^verbatim>\<open>search\<close> returns the empty list and
  \<^verbatim>\<open>answer_question\<close> returns the fixed fallback string, which in the source reads
  \<^verbatim>\<open>I don't have information to answer this question.\<close>, with an empty result list.
  This holds for every embedder and every index, also where encoding the question or
  searching the index would raise: neither is reached.\<close>

theorem empty_knowledge_base:
  assumes "documents self = []"
  shows "search self question top_k = (Inr [], self)
       \<and> answer_question self question =
           (Inr (''I don't have information to answer this question.'', []), self)"
  using assms by (simp add: search_def answer_question_def)

theorem empty_knowledge_base_witness:
  "documents (EasyRAG_init toy_model) = []
 \<and> length (embedder (EasyRAG_init toy_model) ''bb'')
      \<noteq> dimensionality (index (EasyRAG_init toy_model))
 \<and> search (EasyRAG_init toy_model) ''bb'' 3 = (Inr [], EasyRAG_init toy_model)
 \<and> answer_question (EasyRAG_init toy_model) ''bb'' =
      (Inr (''I don't have information to answer this question.'', []), EasyRAG_init toy_model)"
proof -
  have h: "documents (EasyRAG_init toy_model) = []" by (simp add: EasyRAG_init_def)
  have n: "length (embedder (EasyRAG_init toy_model) ''bb'')
      \<noteq> dimensionality (index (EasyRAG_init toy_model))"
    by (simp add: EasyRAG_init_def IndexFlatL2_def toy_model_def)
  show ?thesis
    using empty_knowledge_base[OF h, of "''bb''" 3] h n by simp
qed

text \<open>C9. \<^verbatim>\<open>search\<close> and \<^verbatim>\<open>answer_question\<close> leave the object as it was: the
  document list and the index are the same after the call as before it, whether the call
  returns or raises.\<close>

theorem search_and_answer_leave_state:
  "snd (search self query top_k) = self \<and> snd (answer_question self question) = self"
proof
  show "snd (search self query top_k) = self" by (rule search_frame)
  obtain r where "search self question 3 = (r, self)"
    using search_frame[of self question 3] by (metis prod.collapse)
  then show "snd (answer_question self question) = self"
    by (cases r) (simp_all add: answer_question_def Let_def)
qed

section \<open>Properties of add_documents\<close>

text \<open>C6. If a vector of the batch has a length other than the index's dimensionality,
  \<^verbatim>\<open>index.add\<close> fails with DimensionMismatch and the index is unchanged, and
  \<^verbatim>\<open>add_documents\<close> fails with DimensionMismatch and the object is unchanged: no
  vector and no text of the batch is appended. If the query vector has a length other
  than the dimensionality, \<^verbatim>\<open>index.search\<close> fails with DimensionMismatch, and so does
  \<^verbatim>\<open>search\<close> on a knowledge base with at least one document, leaving the object
  unchanged.\<close>

theorem dimension_mismatch_rejected:
  "(\<not> list_all (\<lambda>v. length v = dimensionality ix) x \<longrightarrow>
      index_add ix x = (Inl DimensionMismatch, ix))
 \<and> (\<not> list_all (\<lambda>v. length v = dimensionality (index self)) (encode (embedder self) texts) \<longrightarrow>
      add_documents self texts = (Inl DimensionMismatch, self))
 \<and> (length q \<noteq> dimensionality ix \<longrightarrow> index_search ix q k = Inl DimensionMismatch)
 \<and> (documents self \<noteq> [] \<and> length (embedder self query) \<noteq> dimensionality (index self) \<longrightarrow>
      search self query top_k = (Inl DimensionMismatch, self))"
  by (auto simp: index_add_def add_documents_def index_search_def search_def encode_def Let_def)

theorem dimension_mismatch_rejected_witness:
  "\<not> list_all (\<lambda>v. length v = dimensionality toy_index) [[1, 0], [1]]
 \<and> index_add toy_index [[1, 0], [1]] = (Inl DimensionMismatch, toy_index)
 \<and> \<not> list_all (\<lambda>v. length v = dimensionality (index broken_rag))
        (encode (embedder broken_rag) [''ab'', ''long text''])
 \<and> add_documents broken_rag [''ab'', ''long text''] = (Inl DimensionMismatch, broken_rag)
 \<and> length [1 :: rat] \<noteq> dimensionality toy_index
 \<and> index_search toy_index [1] 2 = Inl DimensionMismatch
 \<and> documents broken_rag \<noteq> []
 \<and> length (embedder broken_rag ''long text'') \<noteq> dimensionality (index broken_rag)
 \<and> search broken_rag ''long text'' 3 = (Inl DimensionMismatch, broken_rag)"
proof -
  have a: "\<not> list_all (\<lambda>v. length v = dimensionality toy_index) [[1, 0], [1 :: rat]]"
    by (simp add: toy_defs)
  have b: "\<not> list_all (\<lambda>v. length v = dimensionality (index broken_rag))
        (encode (embedder broken_rag) [''ab'', ''long text''])"
    by (simp add: toy_defs encode_def)
  have c: "length [1 :: rat] \<noteq> dimensionality toy_index" by (simp add: toy_defs)
  have d: "documents broken_rag \<noteq> []
      \<and> length (embedder broken_rag ''long text'') \<noteq> dimensionality (index broken_rag)"
    by (simp add: toy_defs)
  show ?thesis
    using dimension_mismatch_rejected[where ix = toy_index and x = "[[1, 0], [1]]"
        and self = broken_rag and texts = "[''ab'', ''long text'']" and q = "[1]" and k = 2
        and query = "''long text''" and top_k = 3] a b c d
    by simp
qed

lemma add_documents_Inr:
  assumes "add_documents self texts = (Inr u, self')"
  shows "self' = self\<lparr>index := (index self)\<lparr>vectors := vectors (index self) @ encode (embedder self) texts\<rparr>,
                      documents := documents self @ texts\<rparr>"
  using assms by (auto simp: add_documents_def index_add_def Let_def split: if_splits)

lemma add_documents_Inr_nonempty:
  assumes "add_documents self texts = (Inr u, self')"
  shows "texts \<noteq> []"
  using assms by (auto simp: add_documents_def index_add_def encode_def Let_def split: if_splits)

lemma add_documents_seq_Some:
  "add_documents_seq self batches = Some self' \<Longrightarrow>
     embedder self' = embedder self
   \<and> documents self' = documents self @ concat batches
   \<and> vectors (index self') = vectors (index self) @ encode (embedder self) (concat batches)"
proof (induction batches arbitrary: self)
  case Nil
  then show ?case by (simp add: encode_def)
next
  case (Cons texts rest)
  then obtain u mid where mid: "add_documents self texts = (Inr u, mid)"
      and rest: "add_documents_seq mid rest = Some self'"
    by (auto split: prod.splits sum.splits)
  note m = add_documents_Inr[OF mid]
  have "embedder mid = embedder self" "documents mid = documents self @ texts"
    "vectors (index mid) = vectors (index self) @ encode (embedder self) texts"
    by (simp_all add: m)
  with Cons.IH[OF rest] show ?case by (simp add: encode_def)
qed

text \<open>C7. After any sequence of successful \<^verbatim>\<open>add_documents\<close> calls on a freshly
  created object, the index holds as many vectors as there are documents, that number is
  the sum of the batch sizes, the documents are the batches in call order, and the vector
  with identifier \<open>i\<close> in the index is the embedding of \<open>documents[i]\<close>.\<close>

theorem insertion_invariant:
  assumes "add_documents_seq (EasyRAG_init model) batches = Some self"
  shows "ntotal (index self) = length (documents self)
       \<and> length (documents self) = sum_list (map length batches)
       \<and> documents self = concat batches
       \<and> (\<forall>i<length (documents self). vectors (index self) ! i = embedder self (documents self ! i))"
proof -
  from add_documents_seq_Some[OF assms]
  have e: "embedder self = model" and d: "documents self = concat batches"
    and v: "vectors (index self) = encode model (concat batches)"
    by (simp_all add: EasyRAG_init_def IndexFlatL2_def)
  show ?thesis
    by (simp add: ntotal_def e d v encode_def length_concat)
qed

theorem insertion_invariant_witness:
  "add_documents_seq (EasyRAG_init model384) [[''a''], [''bb'', ''c'']] =
     Some \<lparr>embedder = model384, embedding_dim = 384,
           index = \<lparr>dimensionality = 384,
                    vectors = [replicate 384 1, replicate 384 2, replicate 384 1]\<rparr>,
           documents = [''a'', ''bb'', ''c'']\<rparr>
 \<and> ntotal (index (the (add_documents_seq (EasyRAG_init model384) [[''a''], [''bb'', ''c'']]))) = 3
 \<and> length (documents (the (add_documents_seq (EasyRAG_init model384) [[''a''], [''bb'', ''c'']])))
      = sum_list (map length [[''a''], [''bb'', ''c'']])
 \<and> documents (the (add_documents_seq (EasyRAG_init model384) [[''a''], [''bb'', ''c'']]))
      = [''a'', ''bb'', ''c'']"
proof -
  have h: "add_documents_seq (EasyRAG_init model384) [[''a''], [''bb'', ''c'']] =
     Some \<lparr>embedder = model384, embedding_dim = 384,
           index = \<lparr>dimensionality = 384,
                    vectors = [replicate 384 1, replicate 384 2, replicate 384 1]\<rparr>,
           documents = [''a'', ''bb'', ''c'']\<rparr>"
    by (simp add: EasyRAG_init_def IndexFlatL2_def add_documents_def index_add_def encode_def
        model384_def)
  show ?thesis
    using insertion_invariant[OF h] h by simp
qed

text \<open>C8. \<^verbatim>\<open>add_documents\<close> with an empty list of texts raises ValueError: the
  method has no guard for it, \<^verbatim>\<open>encode\<close> returns the empty one-dimensional array, and
  \<^verbatim>\<open>index.add\<close> fails on its shape. The object is unchanged, so no vector and no text
  is added, but the call does not return.\<close>

theorem add_empty_batch_raises:
  "add_documents self [] = (Inl ValueError, self)"
  by (simp add: add_documents_def index_add_def encode_def)

end
